theory Spec2Isabelle
  imports Main "HOL-Library.Word"
begin

unbundle bit_operations_syntax

section \<open>Return codes and their classification\<close>

text \<open>
  \<^verbatim>\<open>class ReturnCode(BYTE)\<close> is a ctypes unsigned byte; \<^verbatim>\<open>result.value\<close> reads it as a
  Python integer in 0..255. The class attributes are plain Python integers.
\<close>

type_synonym ReturnCode = "8 word"

definition rc_value :: "ReturnCode \<Rightarrow> int" where
  "rc_value result = uint result"

definition SUCCESSFUL :: int where "SUCCESSFUL = 0x0"
definition ERR :: int where "ERR = 0x1"
definition ERRCMD :: int where "ERRCMD = 0x40"
definition WARNING :: int where "WARNING = 0x80"
definition RESERVED :: int where "RESERVED = 0xC0"
definition ERR_ILLHANDLE :: int where "ERR_ILLHANDLE = 0x6"
definition ERRCMD_NOTINIT :: int where "ERRCMD_NOTINIT = 0x48"
definition WARN_NODATA :: int where "WARN_NODATA = 0x80"
definition WARN_TXLIMIT :: int where "WARN_TXLIMIT = 0x91"

lemmas return_code_defs =
  SUCCESSFUL_def ERR_def ERRCMD_def WARNING_def RESERVED_def ERR_ILLHANDLE_def
  ERRCMD_NOTINIT_def WARN_NODATA_def WARN_TXLIMIT_def

definition check_valid_rx_can_msg :: "ReturnCode \<Rightarrow> bool" where
  "check_valid_rx_can_msg result =
     (rc_value result = SUCCESSFUL \<or> rc_value result > WARNING)"

definition check_tx_ok :: "ReturnCode \<Rightarrow> bool" where
  "check_tx_ok result =
     (rc_value result = SUCCESSFUL \<or> rc_value result > WARNING)"

definition check_tx_success :: "ReturnCode \<Rightarrow> bool" where
  "check_tx_success result = (rc_value result = SUCCESSFUL)"

definition check_tx_not_all :: "ReturnCode \<Rightarrow> bool" where
  "check_tx_not_all result = (rc_value result = WARN_TXLIMIT)"

definition check_warning :: "ReturnCode \<Rightarrow> bool" where
  "check_warning result = (rc_value result \<ge> WARNING)"

definition check_error :: "ReturnCode \<Rightarrow> bool" where
  "check_error result =
     (rc_value result \<noteq> SUCCESSFUL \<and> rc_value result < WARNING)"

definition check_error_cmd :: "ReturnCode \<Rightarrow> bool" where
  "check_error_cmd result =
     (rc_value result \<ge> ERRCMD \<and> rc_value result < WARNING)"

lemmas check_defs =
  check_valid_rx_can_msg_def check_tx_ok_def check_tx_success_def check_tx_not_all_def
  check_warning_def check_error_def check_error_cmd_def

subsection \<open>Exceptions and the result check attached to every native call\<close>

text \<open>
  \<^verbatim>\<open>USBCanException.__init__\<close> stores \<^verbatim>\<open>result.value\<close>, the function and the arguments.
  The three subclasses differ only in their message table, so one constructor each.
  \<^verbatim>\<open>logger.warning\<close> is the only effect of \<^verbatim>\<open>check_result\<close>: the log is a list that
  grows at the end. An exception is \<open>Inl\<close>, a normal return \<open>Inr\<close>.
\<close>

datatype ('f, 'a) usbcan_exception =
    USBCanError int 'f 'a
  | USBCanCmdError int 'f 'a
  | USBCanWarning int 'f 'a

definition check_result ::
  "ReturnCode \<Rightarrow> 'f \<Rightarrow> 'a \<Rightarrow> ('f, 'a) usbcan_exception list
     \<Rightarrow> (('f, 'a) usbcan_exception + ReturnCode) \<times> ('f, 'a) usbcan_exception list" where
  "check_result result func arguments logger =
     (if check_warning result then
        (Inr result, logger @ [USBCanWarning (rc_value result) func arguments])
      else if check_error result then
        (if check_error_cmd result then
           (Inl (USBCanCmdError (rc_value result) func arguments), logger)
         else
           (Inl (USBCanError (rc_value result) func arguments), logger))
      else (Inr result, logger))"

section \<open>Firmware version helpers\<close>

text \<open>Versions are Python integers; \<^verbatim>\<open>&\<close> and \<^verbatim>\<open>>>\<close> are the two's-complement operations.\<close>

definition convert_to_major_ver :: "int \<Rightarrow> int" where
  "convert_to_major_ver version = version AND 0xFF"

definition convert_to_minor_ver :: "int \<Rightarrow> int" where
  "convert_to_minor_ver version = drop_bit 8 (version AND 0xFF00)"

definition convert_to_release_ver :: "int \<Rightarrow> int" where
  "convert_to_release_ver version = drop_bit 16 (version AND 0xFFFF0000)"

definition check_version_is_equal_or_higher :: "int \<Rightarrow> int \<Rightarrow> int \<Rightarrow> bool" where
  "check_version_is_equal_or_higher version cmp_major cmp_minor =
     (convert_to_major_ver version > cmp_major \<or>
      (convert_to_major_ver version = cmp_major \<and> convert_to_minor_ver version \<ge> cmp_minor))"

section \<open>Acceptance filter registers\<close>

definition calculate_amr :: "bool \<Rightarrow> int \<Rightarrow> int \<Rightarrow> bool \<Rightarrow> bool \<Rightarrow> int" where
  "calculate_amr is_extended from_id to_id rtr_only rtr_too =
     (if is_extended then
        push_bit 3 (from_id XOR to_id) OR (if rtr_too \<and> \<not> rtr_only then 0x7 else 0x3)
      else
        push_bit 21 (from_id XOR to_id) OR (if rtr_too \<and> \<not> rtr_only then 0x1FFFFF else 0xFFFFF))"

definition calculate_acr :: "bool \<Rightarrow> int \<Rightarrow> int \<Rightarrow> bool \<Rightarrow> bool \<Rightarrow> int" where
  "calculate_acr is_extended from_id to_id rtr_only rtr_too =
     (if is_extended then
        push_bit 3 (from_id AND to_id) OR (if rtr_only then 0x04 else 0)
      else
        push_bit 21 (from_id AND to_id) OR (if rtr_only then 0x100000 else 0))"

text \<open>
  The acceptance test itself runs in the CAN controller, not in this wrapper. It is
  written here from its description: a received identifier is shifted into the register
  position (by 3 for a 29-bit identifier, by 21 for an 11-bit one, the shifts that
  \<^verbatim>\<open>calculate_acr\<close> applies), and it passes when it agrees with the code register on
  each of the 32 bit positions that the mask register leaves at 0.
\<close>

definition register_image :: "bool \<Rightarrow> int \<Rightarrow> int" where
  "register_image is_extended can_id = push_bit (if is_extended then 3 else 21) can_id"

definition passes_acceptance :: "int \<Rightarrow> int \<Rightarrow> int \<Rightarrow> bool" where
  "passes_acceptance amr acr img =
     list_all (\<lambda>n. \<not> bit amr n \<longrightarrow> bit img n = bit acr n) [0..<32]"

section \<open>Python dictionaries and class attributes\<close>

text \<open>
  A \<^verbatim>\<open>dict\<close> keeps insertion order: an association list, where assignment to a present
  key rewrites its entry in place and assignment to a new key appends.
\<close>

fun dict_set :: "('k \<times> 'v) list \<Rightarrow> 'k \<Rightarrow> 'v \<Rightarrow> ('k \<times> 'v) list" where
  "dict_set [] k v = [(k, v)]"
| "dict_set ((k', v') # rest) k v =
     (if k' = k then (k, v) # rest else (k', v') # dict_set rest k v)"

definition dict_get :: "('k \<times> 'v) list \<Rightarrow> 'k \<Rightarrow> 'v \<Rightarrow> 'v" where
  "dict_get d k dflt = (case map_of d k of None \<Rightarrow> dflt | Some v \<Rightarrow> v)"

datatype py_error = AttributeError string string

text \<open>
  The integer constants a class body binds, by name. Reading a name that the class does
  not bind raises \<^verbatim>\<open>AttributeError\<close> (the ctypes base classes \<^verbatim>\<open>WORD\<close> and \<^verbatim>\<open>DWORD\<close>
  bind no name starting with \<^verbatim>\<open>BAUD\<close>).
\<close>

definition Baudrate :: "(string \<times> int) list" where
  "Baudrate =
     [(''BAUD_1MBit'', 0x14), (''BAUD_800kBit'', 0x16), (''BAUD_500kBit'', 0x1C),
      (''BAUD_250kBit'', 0x11C), (''BAUD_125kBit'', 0x31C), (''BAUD_100kBit'', 0x432F),
      (''BAUD_50kBit'', 0x472F), (''BAUD_20kBit'', 0x532F), (''BAUD_10kBit'', 0x672F),
      (''BAUD_USE_BTREX'', 0x0), (''BAUD_AUTO'', - 1)]"

definition class_getattr :: "string \<Rightarrow> (string \<times> int) list \<Rightarrow> string \<Rightarrow> py_error + int" where
  "class_getattr cls_name cls attr =
     (case map_of cls attr of
        None \<Rightarrow> Inl (AttributeError cls_name attr)
      | Some v \<Rightarrow> Inr v)"

text \<open>
  A dictionary display evaluates its keys from first to last; each key here is an
  attribute read on class \<^verbatim>\<open>Baudrate\<close>, and the first failing read ends the evaluation.
\<close>

fun dict_display ::
  "(string \<times> string) list \<Rightarrow> (int \<times> string) list \<Rightarrow> py_error + (int \<times> string) list" where
  "dict_display [] acc = Inr acc"
| "dict_display ((attr, msg) # rest) acc =
     (case class_getattr ''Baudrate'' Baudrate attr of
        Inl e \<Rightarrow> Inl e
      | Inr k \<Rightarrow> dict_display rest (dict_set acc k msg))"

definition baudrate_msgs :: "(string \<times> string) list" where
  "baudrate_msgs =
     [(''BAUD_AUTO'', ''auto baudrate''),
      (''BAUD_10kBit'', ''10 kBit/sec''),
      (''BAUD_20kBit'', ''20 kBit/sec''),
      (''BAUD_50kBit'', ''50 kBit/sec''),
      (''BAUD_100kBit'', ''100 kBit/sec''),
      (''BAUD_125kBit'', ''125 kBit/sec''),
      (''BAUD_250kBit'', ''250 kBit/sec''),
      (''BAUD_500kBit'', ''500 kBit/sec''),
      (''BAUD_800kBit'', ''800 kBit/sec''),
      (''BAUD_1MBit'', ''1 MBit/s''),
      (''BAUD_USE_BTREX'', ''BTR Ext is used'')]"

definition get_baudrate_message :: "int \<Rightarrow> py_error + string" where
  "get_baudrate_message baudrate =
     (case dict_display baudrate_msgs [] of
        Inl e \<Rightarrow> Inl e
      | Inr msgs \<Rightarrow> Inr (dict_get msgs baudrate ''BTR is unknown (user specific)''))"

definition baudrate_ex_msgs :: "(string \<times> string) list" where
  "baudrate_ex_msgs =
     [(''BAUDEX_AUTO'', ''auto baudrate''),
      (''BAUDEX_10kBit'', ''10 kBit/sec''),
      (''BAUDEX_SP2_10kBit'', ''10 kBit/sec''),
      (''BAUDEX_20kBit'', ''20 kBit/sec''),
      (''BAUDEX_SP2_20kBit'', ''20 kBit/sec''),
      (''BAUDEX_50kBit'', ''50 kBit/sec''),
      (''BAUDEX_SP2_50kBit'', ''50 kBit/sec''),
      (''BAUDEX_100kBit'', ''100 kBit/sec''),
      (''BAUDEX_SP2_100kBit'', ''100 kBit/sec''),
      (''BAUDEX_125kBit'', ''125 kBit/sec''),
      (''BAUDEX_SP2_125kBit'', ''125 kBit/sec''),
      (''BAUDEX_250kBit'', ''250 kBit/sec''),
      (''BAUDEX_SP2_250kBit'', ''250 kBit/sec''),
      (''BAUDEX_500kBit'', ''500 kBit/sec''),
      (''BAUDEX_SP2_500kBit'', ''500 kBit/sec''),
      (''BAUDEX_800kBit'', ''800 kBit/sec''),
      (''BAUDEX_SP2_800kBit'', ''800 kBit/sec''),
      (''BAUDEX_1MBit'', ''1 MBit/s''),
      (''BAUDEX_SP2_1MBit'', ''1 MBit/s''),
      (''BAUDEX_USE_BTR01'', ''BTR0/BTR1 is used'')]"

definition get_baudrate_ex_message :: "int \<Rightarrow> py_error + string" where
  "get_baudrate_ex_message baudrate_ex =
     (case dict_display baudrate_ex_msgs [] of
        Inl e \<Rightarrow> Inl e
      | Inr msgs \<Rightarrow> Inr (dict_get msgs baudrate_ex ''BTR is unknown (user specific)''))"

section \<open>The native library boundary\<close>

text \<open>
  The entry points of the vendor library that the session methods call. All of them
  return a \<^verbatim>\<open>ReturnCode\<close> and carry \<^verbatim>\<open>errcheck = check_result\<close>, except
  \<^verbatim>\<open>UcanGetFwVersion\<close>, whose result is a plain \<^verbatim>\<open>DWORD\<close> with no check attached.
\<close>

datatype native_fn =
    UcanInitHwConnectControlEx
  | UcanInitHardwareEx
  | UcanInitHardwareEx2
  | UcanInitCanEx2
  | UcanDeinitCanEx
  | UcanDeinitHardware
  | UcanGetFwVersion
  | UcanGetHardwareInfoEx2
  | UcanGetModuleTime
  | UcanSetBaudrateEx
  | UcanSetAcceptanceEx
  | UcanResetCanEx
  | UcanReadCanMsgEx
  | UcanWriteCanMsgEx
  | UcanGetStatusEx
  | UcanGetMsgCountInfoEx
  | UcanGetMsgPending
  | UcanGetCanErrorCounter
  | UcanSetTxTimeout
  | UcanDefineCyclicCanMsg
  | UcanReadCyclicCanMsg
  | UcanEnableCyclicCanMsg

fun errcheck :: "native_fn \<Rightarrow> bool" where
  "errcheck UcanGetFwVersion = False"
| "errcheck _ = True"

type_synonym Handle = "8 word"

definition INVALID_HANDLE :: Handle where "INVALID_HANDLE = 0xFF"
definition ANY_MODULE :: int where "ANY_MODULE = 255"

definition CHANNEL_CH0 :: int where "CHANNEL_CH0 = 0"
definition CHANNEL_CH1 :: int where "CHANNEL_CH1 = 1"
definition CHANNEL_ALL :: int where "CHANNEL_ALL = 254"
definition CHANNEL_ANY :: int where "CHANNEL_ANY = 255"

lemmas channel_defs = CHANNEL_CH0_def CHANNEL_CH1_def CHANNEL_ALL_def CHANNEL_ANY_def

text \<open>The values a wrapper method hands to an entry point.\<close>

datatype arg =
    AInt int
  | AHandle Handle
  | AByrefHandle
  | AByref
  | ACallbackRef
  | AConnectControlRef
  | ANone
  | AStruct "int list"

type_synonym exn = "(native_fn, arg list) usbcan_exception"

text \<open>
  The library is opaque. Its answer to the \<open>n\<close>-th call of a run is a return code and,
  for the two entry points that take \<^verbatim>\<open>byref(self._handle)\<close>, the value it stores through
  that pointer (\<open>None\<close> when it stores nothing). The world also records the calls made, in
  order, and what \<^verbatim>\<open>logger.warning\<close> received.
\<close>

record world =
  dll :: "nat \<Rightarrow> ReturnCode \<times> Handle option"
  calls :: "(native_fn \<times> arg list) list"
  logger :: "exn list"

definition native_call ::
  "native_fn \<Rightarrow> arg list \<Rightarrow> world \<Rightarrow> (exn + ReturnCode) \<times> Handle option \<times> world" where
  "native_call func arguments w =
     (let answer = dll w (length (calls w));
          w1 = w\<lparr>calls := calls w @ [(func, arguments)]\<rparr>
      in if errcheck func then
           (case check_result (fst answer) func arguments (logger w1) of
              (r, lg) \<Rightarrow> (r, snd answer, w1\<lparr>logger := lg\<rparr>))
         else (Inr (fst answer), snd answer, w1))"

section \<open>The device session\<close>

text \<open>
  The instance attributes that \<^verbatim>\<open>USBCanServer.__init__\<close> creates. The last field is the
  entry \<^verbatim>\<open>_connect_control_ref\<close> of the instance dictionary: \<open>False\<close> while the instance has
  no such entry of its own. The class itself binds \<^verbatim>\<open>_connect_control_ref = None\<close> in its
  body; \<open>cls_connect_control_ref\<close> is that class attribute (\<open>True\<close> once it holds a callback
  object).
\<close>

record USBCanServer =
  handle :: Handle
  is_initialized_attr :: bool
  hw_is_initialized :: bool
  ch_is_initialized :: "(int \<times> bool) list"
  connect_control_ref :: bool

record USBCanServer_class =
  cls_connect_control_ref :: bool

definition USBCanServer_class_body :: USBCanServer_class where
  "USBCanServer_class_body = \<lparr>cls_connect_control_ref = False\<rparr>"

text \<open>
  Reading \<^verbatim>\<open>self._connect_control_ref\<close>: the instance dictionary first, then the class.
  The result is whether the attribute read is not \<^verbatim>\<open>None\<close>.
\<close>

definition getattr_connect_control_ref :: "USBCanServer_class \<Rightarrow> USBCanServer \<Rightarrow> bool" where
  "getattr_connect_control_ref cls self =
     (if connect_control_ref self then True else cls_connect_control_ref cls)"

definition USBCanServer_init ::
  "USBCanServer_class \<Rightarrow> world \<Rightarrow> (exn + USBCanServer) \<times> USBCanServer_class \<times> world" where
  "USBCanServer_init cls w =
     (let self = \<lparr>handle = INVALID_HANDLE,
                  is_initialized_attr = False,
                  hw_is_initialized = False,
                  ch_is_initialized = [(CHANNEL_CH0, False), (CHANNEL_CH1, False)],
                  connect_control_ref = False\<rparr>
      in if \<not> getattr_connect_control_ref cls self then
           (let self1 = self\<lparr>connect_control_ref := True\<rparr>
            in case native_call UcanInitHwConnectControlEx [AConnectControlRef, ANone] w of
                 (Inl e, _, w1) \<Rightarrow> (Inl e, cls, w1)
               | (Inr _, _, w1) \<Rightarrow> (Inr self1, cls, w1))
         else (Inr self, cls, w))"

definition is_initialized :: "USBCanServer \<Rightarrow> bool" where
  "is_initialized self = is_initialized_attr self"

definition init_hardware ::
  "int option \<Rightarrow> int \<Rightarrow> USBCanServer \<Rightarrow> world \<Rightarrow> (exn + unit) \<times> USBCanServer \<times> world" where
  "init_hardware serial device_number self w =
     (if \<not> hw_is_initialized self then
        (case (case serial of
                 None \<Rightarrow> native_call UcanInitHardwareEx
                           [AByrefHandle, AInt device_number, ACallbackRef, ANone] w
               | Some sn \<Rightarrow> native_call UcanInitHardwareEx2
                           [AByrefHandle, AInt sn, ACallbackRef, ANone] w) of
           (r, out, w1) \<Rightarrow>
             (let self1 = self\<lparr>handle := (case out of None \<Rightarrow> handle self | Some h \<Rightarrow> h)\<rparr>
              in case r of
                   Inl e \<Rightarrow> (Inl e, self1, w1)
                 | Inr _ \<Rightarrow> (Inr (), self1\<lparr>hw_is_initialized := True\<rparr>, w1)))
      else (Inr (), self, w))"

text \<open>
  \<^verbatim>\<open>InitCanParam.__init__\<close>: the structure size first (24 bytes, packed), then the fields in
  the order the constructor passes them. Each field keeps the low bits that fit its ctypes
  width: one byte for \<^verbatim>\<open>m_bMode\<close>, \<^verbatim>\<open>m_bBTR0\<close>, \<^verbatim>\<open>m_bBTR1\<close> and \<^verbatim>\<open>m_bOCR\<close>, four bytes for
  \<^verbatim>\<open>m_dwAMR\<close>, \<^verbatim>\<open>m_dwACR\<close> and \<^verbatim>\<open>m_dwBaudrate\<close>, two bytes for the buffer sizes.
\<close>

definition InitCanParam :: "int \<Rightarrow> int \<Rightarrow> int \<Rightarrow> int \<Rightarrow> int \<Rightarrow> int \<Rightarrow> int \<Rightarrow> int \<Rightarrow> int list" where
  "InitCanParam mode BTR OCR AMR ACR baudrate rx_buffer_entries tx_buffer_entries =
     [24,
      take_bit 8 mode,
      take_bit 8 (drop_bit 8 BTR),
      take_bit 8 BTR,
      take_bit 8 OCR,
      take_bit 32 AMR,
      take_bit 32 ACR,
      take_bit 32 baudrate,
      take_bit 16 rx_buffer_entries,
      take_bit 16 tx_buffer_entries]"

definition init_can ::
  "int \<Rightarrow> int \<Rightarrow> int \<Rightarrow> int \<Rightarrow> int \<Rightarrow> int \<Rightarrow> int \<Rightarrow> int \<Rightarrow> int
     \<Rightarrow> USBCanServer \<Rightarrow> world \<Rightarrow> (exn + unit) \<times> USBCanServer \<times> world" where
  "init_can channel BTR baudrate AMR ACR mode OCR rx_buffer_entries tx_buffer_entries self w =
     (if \<not> dict_get (ch_is_initialized self) channel False then
        (let init_param = InitCanParam mode BTR OCR AMR ACR baudrate
                            rx_buffer_entries tx_buffer_entries
         in case native_call UcanInitCanEx2
                   [AHandle (handle self), AInt channel, AStruct init_param] w of
              (Inl e, _, w1) \<Rightarrow> (Inl e, self, w1)
            | (Inr _, _, w1) \<Rightarrow>
                (Inr (),
                 self\<lparr>ch_is_initialized := dict_set (ch_is_initialized self) channel True\<rparr>,
                 w1))
      else (Inr (), self, w))"

text \<open>
  The loop of \<^verbatim>\<open>shutdown\<close> over \<^verbatim>\<open>self._ch_is_initialized.items()\<close>. The keys of a
  dictionary are distinct, so the assignment \<^verbatim>\<open>self._ch_is_initialized[_channel] = False\<close>
  rewrites the entry being visited and no other. The function returns the entries as the
  loop leaves them, also when a native call raises in the middle.
\<close>

fun shutdown_channels ::
  "int \<Rightarrow> bool \<Rightarrow> Handle \<Rightarrow> (int \<times> bool) list \<Rightarrow> world
     \<Rightarrow> (exn + unit) \<times> (int \<times> bool) list \<times> world" where
  "shutdown_channels channel shutdown_hardware h [] w = (Inr (), [], w)"
| "shutdown_channels channel shutdown_hardware h ((c, flag) # rest) w =
     (if flag \<and> (c = channel \<or> channel = CHANNEL_ALL \<or> shutdown_hardware) then
        (case native_call UcanDeinitCanEx [AHandle h, AInt c] w of
           (Inl e, _, w1) \<Rightarrow> (Inl e, (c, flag) # rest, w1)
         | (Inr _, _, w1) \<Rightarrow>
             (case shutdown_channels channel shutdown_hardware h rest w1 of
                (r, rest1, w2) \<Rightarrow> (r, (c, False) # rest1, w2)))
      else
        (case shutdown_channels channel shutdown_hardware h rest w of
           (r, rest1, w2) \<Rightarrow> (r, (c, flag) # rest1, w2)))"

definition shutdown ::
  "int \<Rightarrow> bool \<Rightarrow> USBCanServer \<Rightarrow> world \<Rightarrow> (exn + unit) \<times> USBCanServer \<times> world" where
  "shutdown channel shutdown_hardware self w =
     (case shutdown_channels channel shutdown_hardware (handle self) (ch_is_initialized self) w of
        (Inl e, chs, w1) \<Rightarrow> (Inl e, self\<lparr>ch_is_initialized := chs\<rparr>, w1)
      | (Inr _, chs, w1) \<Rightarrow>
          (let self1 = self\<lparr>ch_is_initialized := chs\<rparr>
           in if hw_is_initialized self1 \<and> shutdown_hardware then
                (case native_call UcanDeinitHardware [AHandle (handle self1)] w1 of
                   (Inl e, _, w2) \<Rightarrow> (Inl e, self1, w2)
                 | (Inr _, _, w2) \<Rightarrow>
                     (Inr (),
                      self1\<lparr>hw_is_initialized := False, handle := INVALID_HANDLE\<rparr>,
                      w2))
              else (Inr (), self1, w1)))"

text \<open>
  Fourteen of the remaining instance methods (\<^verbatim>\<open>read_can_msg\<close>, \<^verbatim>\<open>write_can_msg\<close>,
  \<^verbatim>\<open>set_baudrate\<close>, \<^verbatim>\<open>set_acceptance\<close>, \<^verbatim>\<open>get_status\<close>, \<^verbatim>\<open>get_msg_count_info\<close>,
  \<^verbatim>\<open>reset_can\<close>, \<^verbatim>\<open>get_hardware_info\<close>, \<^verbatim>\<open>get_fw_version\<close>, \<^verbatim>\<open>define_cyclic_can_msg\<close>,
  \<^verbatim>\<open>enable_cyclic_can_msg\<close>, \<^verbatim>\<open>get_msg_pending\<close>, \<^verbatim>\<open>get_can_error_counter\<close>,
  \<^verbatim>\<open>set_tx_timeout\<close>) have one shape: a single native call whose first argument is
  \<^verbatim>\<open>self._handle\<close>, and no assignment to an attribute of \<^verbatim>\<open>self\<close>. The payload they return
  is not part of the session state.
\<close>

definition pass_through ::
  "native_fn \<Rightarrow> arg list \<Rightarrow> USBCanServer \<Rightarrow> world \<Rightarrow> (exn + unit) \<times> USBCanServer \<times> world" where
  "pass_through func arguments self w =
     (case native_call func (AHandle (handle self) # arguments) w of
        (Inl e, _, w1) \<Rightarrow> (Inl e, self, w1)
      | (Inr _, _, w1) \<Rightarrow> (Inr (), self, w1))"

text \<open>
  \<^verbatim>\<open>read_cyclic_can_msg\<close> never reaches the library. A negative \<^verbatim>\<open>count\<close> makes the array
  type \<^verbatim>\<open>CanMsg * count\<close> raise \<^verbatim>\<open>ValueError\<close>; otherwise the call passes
  \<^verbatim>\<open>byref(c_channel)\<close> where \<^verbatim>\<open>UcanReadCyclicCanMsg.argtypes\<close> declares a \<^verbatim>\<open>BYTE\<close>, and ctypes
  raises \<^verbatim>\<open>ArgumentError\<close> while converting the arguments. Either way no native call is
  made and no attribute of \<^verbatim>\<open>self\<close> is assigned.
\<close>

datatype raised = Native exn | ValueError | ArgumentError

definition read_cyclic_can_msg ::
  "int \<Rightarrow> int \<Rightarrow> USBCanServer \<Rightarrow> world \<Rightarrow> (raised + unit) \<times> USBCanServer \<times> world" where
  "read_cyclic_can_msg channel count self w =
     (if count < 0 then (Inl ValueError, self, w) else (Inl ArgumentError, self, w))"

text \<open>
  The two callback trampolines dispatch on the event code to hook methods whose bodies
  are \<^verbatim>\<open>pass\<close>: whatever the event, the session is left as it was.
\<close>

definition EVENT_INITHW :: int where "EVENT_INITHW = 0"
definition EVENT_init_can :: int where "EVENT_init_can = 1"
definition EVENT_RECEIVE :: int where "EVENT_RECEIVE = 2"
definition EVENT_STATUS :: int where "EVENT_STATUS = 3"
definition EVENT_DEINIT_CAN :: int where "EVENT_DEINIT_CAN = 4"
definition EVENT_DEINITHW :: int where "EVENT_DEINITHW = 5"
definition EVENT_CONNECT :: int where "EVENT_CONNECT = 6"
definition EVENT_DISCONNECT :: int where "EVENT_DISCONNECT = 7"
definition EVENT_FATALDISCON :: int where "EVENT_FATALDISCON = 8"

definition hook_pass :: "USBCanServer \<Rightarrow> USBCanServer" where
  "hook_pass self = self"

definition callback :: "int \<Rightarrow> int \<Rightarrow> USBCanServer \<Rightarrow> USBCanServer" where
  "callback event channel self =
     (if event = EVENT_INITHW then hook_pass self
      else if event = EVENT_init_can then hook_pass self
      else if event = EVENT_RECEIVE then hook_pass self
      else if event = EVENT_STATUS then hook_pass self
      else if event = EVENT_DEINIT_CAN then hook_pass self
      else if event = EVENT_DEINITHW then hook_pass self
      else self)"

definition connect_control :: "int \<Rightarrow> int \<Rightarrow> USBCanServer \<Rightarrow> USBCanServer" where
  "connect_control event param self =
     (if event = EVENT_FATALDISCON then hook_pass self
      else if event = EVENT_CONNECT then hook_pass self
      else if event = EVENT_DISCONNECT then hook_pass self
      else self)"

text \<open>One use of a session: a method call by the application or a callback from the library.\<close>

datatype method_call =
    Init_hardware "int option" int
  | Init_can int int int int int int int int int
  | Shutdown int bool
  | Pass_through native_fn "arg list"
  | Read_cyclic_can_msg int int
  | Callback int int
  | Connect_control int int

text \<open>What a method that goes through the library raises is a \<open>Native\<close> exception.\<close>

fun from_native ::
  "(exn + unit) \<times> USBCanServer \<times> world \<Rightarrow> (raised + unit) \<times> USBCanServer \<times> world" where
  "from_native (Inl e, self, w) = (Inl (Native e), self, w)"
| "from_native (Inr u, self, w) = (Inr u, self, w)"

fun invoke ::
  "method_call \<Rightarrow> USBCanServer \<Rightarrow> world \<Rightarrow> (raised + unit) \<times> USBCanServer \<times> world" where
  "invoke (Init_hardware serial device_number) self w =
     from_native (init_hardware serial device_number self w)"
| "invoke (Init_can channel BTR baudrate AMR ACR mode OCR rx tx) self w =
     from_native (init_can channel BTR baudrate AMR ACR mode OCR rx tx self w)"
| "invoke (Shutdown channel shutdown_hardware) self w =
     from_native (shutdown channel shutdown_hardware self w)"
| "invoke (Pass_through func arguments) self w = from_native (pass_through func arguments self w)"
| "invoke (Read_cyclic_can_msg channel count) self w = read_cyclic_can_msg channel count self w"
| "invoke (Callback event channel) self w = (Inr (), callback event channel self, w)"
| "invoke (Connect_control event param) self w = (Inr (), connect_control event param self, w)"

text \<open>
  The states a session can be in: the one a completed constructor returns, and any state
  that a use of a reachable session leaves behind, whether the use returns or raises.
\<close>

inductive reachable :: "USBCanServer \<Rightarrow> bool" where
  constructed: "USBCanServer_init cls w = (Inr self, cls1, w1) \<Longrightarrow> reachable self"
| used: "reachable self \<Longrightarrow> invoke m self w = (r, self1, w1) \<Longrightarrow> reachable self1"

text \<open>A library that answers every call with \<^verbatim>\<open>SUCCESSFUL\<close> and stores handle 0.\<close>

definition dll_ok :: "nat \<Rightarrow> ReturnCode \<times> Handle option" where
  "dll_ok n = (0, Some 0)"

definition world0 :: world where
  "world0 = \<lparr>dll = dll_ok, calls = [], logger = []\<rparr>"

text \<open>A library that rejects every call with \<^verbatim>\<open>ERR_ILLHANDLE\<close> and stores nothing.\<close>

definition dll_illhandle :: "nat \<Rightarrow> ReturnCode \<times> Handle option" where
  "dll_illhandle n = (0x06, None)"

text \<open>
  A library that stores handle 9 through the pointer it is given and then rejects the
  call with \<^verbatim>\<open>ERR_HWINUSE\<close>.
\<close>

definition dll_store_then_fail :: "nat \<Rightarrow> ReturnCode \<times> Handle option" where
  "dll_store_then_fail n = (0x03, Some 9)"

text \<open>
  Sample sessions: as constructed, after \<^verbatim>\<open>init_hardware\<close>, with both channels up, and
  after an \<^verbatim>\<open>init_hardware\<close> that raised once the library had stored a handle.
\<close>

definition session_fresh :: USBCanServer where
  "session_fresh =
     \<lparr>handle = INVALID_HANDLE, is_initialized_attr = False, hw_is_initialized = False,
      ch_is_initialized = [(CHANNEL_CH0, False), (CHANNEL_CH1, False)],
      connect_control_ref = True\<rparr>"

definition session_hw :: USBCanServer where
  "session_hw = session_fresh\<lparr>handle := 0, hw_is_initialized := True\<rparr>"

definition session_busy :: USBCanServer where
  "session_busy = session_hw\<lparr>ch_is_initialized := [(CHANNEL_CH0, True), (CHANNEL_CH1, True)]\<rparr>"

definition session_stale :: USBCanServer where
  "session_stale = session_fresh\<lparr>handle := 9\<rparr>"

definition install_call :: "native_fn \<times> arg list" where
  "install_call = (UcanInitHwConnectControlEx, [AConnectControlRef, ANone])"

section \<open>Properties of the classification\<close>

lemma rc_value_range: "0 \<le> rc_value c \<and> rc_value c \<le> 255"
proof -
  have "uint c < 2 ^ LENGTH(8)" by (rule uint_bounded)
  then show ?thesis by (simp add: rc_value_def)
qed

lemma check_result_ok: "check_result 0 f a lg = (Inr 0, lg)"
  by (simp add: check_result_def check_defs return_code_defs rc_value_def)

text \<open>
  C2. For every return code \<open>c\<close> (a byte, so \<open>rc_value c\<close> is in 0..255):
  \<open>check_error\<close> holds exactly when the code is not 0 and below \<open>0x80\<close>; \<open>check_warning\<close>
  holds exactly when the code is at least \<open>0x80\<close>; the two never hold together; and
  \<open>check_error_cmd\<close> holds exactly on the firmware band \<open>[0x40, 0x80)\<close>.
\<close>

theorem return_code_classification:
  "(check_error c \<longleftrightarrow> rc_value c \<noteq> 0 \<and> rc_value c < 0x80)
   \<and> (check_warning c \<longleftrightarrow> rc_value c \<ge> 0x80)
   \<and> \<not> (check_error c \<and> check_warning c)
   \<and> (check_error_cmd c \<longleftrightarrow> 0x40 \<le> rc_value c \<and> rc_value c < 0x80)"
  by (auto simp: check_defs return_code_defs)

text \<open>
  C3. \<open>check_result\<close> sorts every native return code into exactly one of four outcomes:
  a code of at least \<open>0x80\<close> is logged as a \<open>USBCanWarning\<close> and returned unchanged; a code
  in \<open>0x40..0x7F\<close> raises \<open>USBCanCmdError\<close> with the raw code, the function and the
  arguments; any other nonzero code raises \<open>USBCanError\<close> with the same payload; code 0 is
  returned with nothing logged and nothing raised.
\<close>

theorem check_result_classification:
  "check_result result func arguments lg =
     (if rc_value result \<ge> 0x80 then
        (Inr result, lg @ [USBCanWarning (rc_value result) func arguments])
      else if 0x40 \<le> rc_value result then
        (Inl (USBCanCmdError (rc_value result) func arguments), lg)
      else if rc_value result \<noteq> 0 then
        (Inl (USBCanError (rc_value result) func arguments), lg)
      else (Inr result, lg))"
  by (auto simp: check_result_def check_defs return_code_defs)

text \<open>
  C4. \<open>check_valid_rx_can_msg\<close> and \<open>check_tx_ok\<close> hold exactly when the code is 0 or
  strictly above \<open>0x80\<close>, so both are false at \<open>0x80\<close> itself (\<open>WARN_NODATA\<close>);
  \<open>check_tx_success\<close> holds exactly at 0; \<open>check_tx_not_all\<close> holds exactly at
  \<open>WARN_TXLIMIT = 0x91\<close>.
\<close>

theorem rx_tx_predicates:
  "(check_valid_rx_can_msg c \<longleftrightarrow> rc_value c = 0 \<or> rc_value c > 0x80)
   \<and> (check_tx_ok c \<longleftrightarrow> rc_value c = 0 \<or> rc_value c > 0x80)
   \<and> rc_value 0x80 = WARN_NODATA
   \<and> \<not> check_valid_rx_can_msg 0x80 \<and> \<not> check_tx_ok 0x80
   \<and> (check_tx_success c \<longleftrightarrow> rc_value c = 0)
   \<and> WARN_TXLIMIT = 0x91
   \<and> (check_tx_not_all c \<longleftrightarrow> rc_value c = 0x91)"
  by (auto simp: check_defs return_code_defs rc_value_def)

section \<open>Properties of the version helpers\<close>

lemma ff_mask: "(0xFF::int) = mask 8"
  by (simp add: mask_eq_exp_minus_1)

lemma ff00_mask: "(0xFF00::int) = push_bit 8 (mask 8)"
  by (simp add: mask_eq_exp_minus_1 push_bit_eq_mult)

lemma convert_to_minor_ver_shift_first:
  "convert_to_minor_ver v = drop_bit 8 v AND 0xFF"
  unfolding convert_to_minor_ver_def ff_mask ff00_mask
  by (rule bit_eqI) (auto simp: bit_and_iff bit_drop_bit_eq bit_push_bit_iff bit_mask_iff)

lemma version_2_16:
  "convert_to_major_ver 0x1002 = 2 \<and> convert_to_minor_ver 0x1002 = 16
   \<and> check_version_is_equal_or_higher 0x1002 2 16
   \<and> check_version_is_equal_or_higher 0x1002 1 99
   \<and> \<not> check_version_is_equal_or_higher 0x1002 2 17
   \<and> \<not> check_version_is_equal_or_higher 0x1002 3 0"
  by code_simp

text \<open>
  C7. With major \<open>= version & 0xFF\<close> and minor \<open>= (version >> 8) & 0xFF\<close>, the version
  \<open>0x1002\<close> encodes major 2 and minor 16; it is equal or higher than (2, 16) and (1, 99)
  and not than (2, 17) or (3, 0). For every version, the check holds exactly when the
  encoded major exceeds the compared major, or equals it with the encoded minor at least
  the compared minor.
\<close>

theorem version_comparison:
  "convert_to_major_ver 0x1002 = 2 \<and> convert_to_minor_ver 0x1002 = 16
   \<and> check_version_is_equal_or_higher 0x1002 2 16
   \<and> check_version_is_equal_or_higher 0x1002 1 99
   \<and> \<not> check_version_is_equal_or_higher 0x1002 2 17
   \<and> \<not> check_version_is_equal_or_higher 0x1002 3 0
   \<and> (check_version_is_equal_or_higher version cmp_major cmp_minor \<longleftrightarrow>
        (version AND 0xFF) > cmp_major \<or>
        ((version AND 0xFF) = cmp_major \<and> (drop_bit 8 version AND 0xFF) \<ge> cmp_minor))"
proof -
  have "check_version_is_equal_or_higher version cmp_major cmp_minor \<longleftrightarrow>
        (version AND 0xFF) > cmp_major \<or>
        ((version AND 0xFF) = cmp_major \<and> (drop_bit 8 version AND 0xFF) \<ge> cmp_minor)"
    unfolding check_version_is_equal_or_higher_def convert_to_minor_ver_shift_first
      convert_to_major_ver_def ..
  with version_2_16 show ?thesis by blast
qed

section \<open>Properties of the acceptance registers\<close>

lemma passes_shifted:
  assumes kw: "k + w = 32"
  shows "passes_acceptance (mask k) (push_bit k a) (push_bit k b)
           \<longleftrightarrow> take_bit w a = take_bit w (b::int)"
proof
  assume p: "passes_acceptance (mask k) (push_bit k a) (push_bit k b)"
  show "take_bit w a = take_bit w b"
  proof (rule bit_eqI)
    fix m
    show "bit (take_bit w a) m = bit (take_bit w b) m"
    proof (cases "m < w")
      case True
      then have "k + m \<in> set [0..<32]" using kw by simp
      moreover have "\<not> bit (mask k :: int) (k + m)" by (simp add: bit_mask_iff)
      ultimately have "bit (push_bit k b) (k + m) = bit (push_bit k a) (k + m)"
        using p unfolding passes_acceptance_def list_all_iff by blast
      then show ?thesis using True by (simp add: bit_push_bit_iff bit_take_bit_iff)
    next
      case False
      then show ?thesis by (simp add: bit_take_bit_iff)
    qed
  qed
next
  assume e: "take_bit w a = take_bit w b"
  show "passes_acceptance (mask k) (push_bit k a) (push_bit k b)"
    unfolding passes_acceptance_def list_all_iff
  proof (intro ballI impI)
    fix n assume n: "n \<in> set [0..<32]" and nm: "\<not> bit (mask k :: int) n"
    from nm have kn: "k \<le> n" by (simp add: bit_mask_iff)
    with n kw have "n - k < w" by simp
    then have "bit a (n - k) = bit b (n - k)"
      using e by (metis bit_take_bit_iff)
    then show "bit (push_bit k b) n = bit (push_bit k a) n"
      using kn by (simp add: bit_push_bit_iff)
  qed
qed

lemma calculate_amr_single:
  "calculate_amr ext i i False True = mask (if ext then 3 else 21)"
  by (simp add: calculate_amr_def mask_eq_exp_minus_1)

lemma calculate_acr_single:
  "calculate_acr ext i i False True = push_bit (if ext then 3 else 21) i"
  by (simp add: calculate_acr_def)

text \<open>
  C8. For an identifier \<open>i\<close> of the width that \<open>ext\<close> selects (29 bits when true, 11 when
  false), the registers computed by \<open>calculate_amr\<close> and \<open>calculate_acr\<close> from the range
  \<open>i..i\<close> (with the default \<open>rtr_only = False\<close>, \<open>rtr_too = True\<close>) accept a candidate \<open>j\<close> of
  the same width exactly when \<open>j = i\<close>; a candidate that differs from \<open>i\<close> is rejected.
\<close>

theorem single_id_filter:
  assumes "0 \<le> i" "i < 2 ^ (if ext then 29 else 11)"
      and "0 \<le> j" "j < 2 ^ (if ext then 29 else 11)"
  shows "passes_acceptance (calculate_amr ext i i False True)
           (calculate_acr ext i i False True) (register_image ext j) \<longleftrightarrow> j = i"
proof -
  let ?k = "if ext then 3 else 21" and ?w = "if ext then 29 else (11::nat)"
  have kw: "?k + ?w = 32" by simp
  have ti: "take_bit ?w i = i" using assms(1,2) by (simp add: take_bit_int_eq_self)
  have tj: "take_bit ?w j = j" using assms(3,4) by (simp add: take_bit_int_eq_self)
  have "passes_acceptance (mask ?k) (push_bit ?k i) (push_bit ?k j)
          \<longleftrightarrow> take_bit ?w i = take_bit ?w j"
    by (rule passes_shifted [OF kw])
  then show ?thesis
    unfolding calculate_amr_single calculate_acr_single register_image_def ti tj by auto
qed

theorem single_id_filter_witness:
  "passes_acceptance (calculate_amr True 0x1ABCDEF 0x1ABCDEF False True)
     (calculate_acr True 0x1ABCDEF 0x1ABCDEF False True) (register_image True 0x1ABCDEF)
   \<and> \<not> passes_acceptance (calculate_amr False 0x123 0x123 False True)
     (calculate_acr False 0x123 0x123 False True) (register_image False 0x122)"
proof -
  have a: "passes_acceptance (calculate_amr True 0x1ABCDEF 0x1ABCDEF False True)
     (calculate_acr True 0x1ABCDEF 0x1ABCDEF False True) (register_image True 0x1ABCDEF)"
    using single_id_filter [of "0x1ABCDEF" True "0x1ABCDEF"] by simp
  have b: "\<not> passes_acceptance (calculate_amr False 0x123 0x123 False True)
     (calculate_acr False 0x123 0x123 False True) (register_image False 0x122)"
    using single_id_filter [of "0x123" False "0x122"] by simp
  from a b show ?thesis ..
qed

section \<open>Properties of the baud-rate message tables\<close>

lemma get_baudrate_message_works: "get_baudrate_message 0x14 = Inr ''1 MBit/s''"
  by (simp add: get_baudrate_message_def baudrate_msgs_def class_getattr_def Baudrate_def
        dict_get_def)

lemma no_baudex_name_on_Baudrate:
  "list_all (\<lambda>attr. class_getattr ''Baudrate'' Baudrate attr
                     = Inl (AttributeError ''Baudrate'' attr)) (map fst baudrate_ex_msgs)"
  by (simp add: baudrate_ex_msgs_def class_getattr_def Baudrate_def)

text \<open>
  C10. Whatever value is passed, \<open>get_baudrate_ex_message\<close> raises \<open>AttributeError\<close>
  and returns no message: the first key of its table is read as \<^verbatim>\<open>Baudrate.BAUDEX_AUTO\<close>,
  and class \<^verbatim>\<open>Baudrate\<close> binds only \<^verbatim>\<open>BAUD_*\<close> names.
\<close>

theorem get_baudrate_ex_message_raises:
  "get_baudrate_ex_message baudrate_ex = Inl (AttributeError ''Baudrate'' ''BAUDEX_AUTO'')"
  by (simp add: get_baudrate_ex_message_def baudrate_ex_msgs_def class_getattr_def Baudrate_def)

section \<open>Properties of the device session\<close>

lemma native_call_calls:
  "native_call f args w = (r, out, w1) \<Longrightarrow> calls w1 = calls w @ [(f, args)]"
  by (auto simp: native_call_def Let_def split: if_splits prod.splits)

lemma init_class_unchanged:
  "USBCanServer_init cls w = (r, cls1, w1) \<Longrightarrow> cls1 = cls"
  by (auto simp: USBCanServer_init_def Let_def split: if_splits prod.splits sum.splits)

lemma init_installs:
  "\<not> cls_connect_control_ref cls \<Longrightarrow> USBCanServer_init cls w = (r, cls1, w1)
   \<Longrightarrow> calls w1 = calls w @ [install_call]"
  by (auto simp: USBCanServer_init_def getattr_connect_control_ref_def Let_def install_call_def
           dest: native_call_calls split: if_splits prod.splits sum.splits)

text \<open>
  C1. The claim is that the connect-control callback is installed at most once per
  process, however many sessions are constructed. The constructor stores the callback on
  the instance and never on the class, so the class attribute it tests stays \<^verbatim>\<open>None\<close>:
  with a library that answers \<^verbatim>\<open>SUCCESSFUL\<close>, constructing two sessions in a row from the
  class as its body defines it calls \<^verbatim>\<open>UcanInitHwConnectControlEx\<close> twice.
\<close>

theorem second_construction_installs_again:
  "\<exists>s1 c1 w1 s2 c2 w2.
     USBCanServer_init USBCanServer_class_body world0 = (Inr s1, c1, w1) \<and>
     USBCanServer_init c1 w1 = (Inr s2, c2, w2) \<and>
     calls w1 = [install_call] \<and>
     calls w2 = [install_call, install_call]"
  by (simp add: USBCanServer_init_def getattr_connect_control_ref_def USBCanServer_class_body_def
        world0_def dll_ok_def native_call_def Let_def check_result_ok install_call_def)

text \<open>
  C6. \<open>init_can\<close> on a channel whose flag reads true, and \<open>init_hardware\<close> on a session
  whose hardware flag is true, return normally with the session and the world unchanged:
  no native call is recorded, nothing is logged, and no flag or handle changes.
\<close>

theorem reinit_is_noop:
  "(dict_get (ch_is_initialized self) channel False \<longrightarrow>
      init_can channel BTR baudrate AMR ACR mode OCR rx_buffer_entries tx_buffer_entries self w
        = (Inr (), self, w)) \<and>
   (hw_is_initialized self \<longrightarrow>
      init_hardware serial device_number self w = (Inr (), self, w))"
  by (simp add: init_can_def init_hardware_def)

theorem reinit_is_noop_witness:
  "dict_get (ch_is_initialized session_busy) CHANNEL_CH1 False
   \<and> init_can CHANNEL_CH1 0x14 0 0xFFFFFFFF 0 0 0x1A 4096 4096 session_busy world0
       = (Inr (), session_busy, world0)
   \<and> hw_is_initialized session_busy
   \<and> init_hardware None ANY_MODULE session_busy world0 = (Inr (), session_busy, world0)"
proof -
  have a: "dict_get (ch_is_initialized session_busy) CHANNEL_CH1 False"
    by (simp add: session_busy_def session_hw_def session_fresh_def dict_get_def channel_defs)
  have b: "hw_is_initialized session_busy"
    by (simp add: session_busy_def session_hw_def session_fresh_def)
  show ?thesis
    using a b
      reinit_is_noop [of session_busy CHANNEL_CH1 "0x14" 0 "0xFFFFFFFF" 0 0 "0x1A" 4096 4096
                         world0 None ANY_MODULE]
    by blast
qed

lemma shutdown_channels_all:
  "shutdown_channels CHANNEL_ALL sh h chs w = (Inr (), chs1, w1)
   \<Longrightarrow> chs1 = map (\<lambda>(c, flag). (c, False)) chs"
proof (induction chs arbitrary: w chs1 w1)
  case Nil
  then show ?case by simp
next
  case (Cons a chs)
  obtain c flag where a: "a = (c, flag)" by (cases a)
  show ?case
    using Cons.prems Cons.IH unfolding a
    by (auto split: if_splits prod.splits sum.splits)
qed

lemma shutdown_channels_idle:
  "list_all (\<lambda>cf. \<not> snd cf) chs \<Longrightarrow> shutdown_channels channel sh h chs w = (Inr (), chs, w)"
  by (induction chs) auto

lemma all_false_map: "list_all (\<lambda>cf. \<not> snd cf) (map (\<lambda>(c, flag). (c, False)) chs)"
  by (induction chs) auto

lemma dict_get_all_false:
  "list_all (\<lambda>cf. \<not> snd cf) chs \<Longrightarrow> \<not> dict_get chs c False"
  by (induction chs) (auto simp: dict_get_def)

lemma shutdown_busy_run:
  "shutdown CHANNEL_ALL True session_busy world0 =
     (Inr (),
      session_fresh,
      \<lparr>dll = dll_ok,
       calls = [(UcanDeinitCanEx, [AHandle 0, AInt CHANNEL_CH0]),
                (UcanDeinitCanEx, [AHandle 0, AInt CHANNEL_CH1]),
                (UcanDeinitHardware, [AHandle 0])],
       logger = []\<rparr>)"
  by (simp add: shutdown_def session_busy_def session_hw_def session_fresh_def world0_def
        dll_ok_def native_call_def Let_def check_result_ok)

text \<open>
  When the library rejects the first deinitialisation, \<open>shutdown\<close> raises and the session
  keeps every flag it had: the statement below is about calls that return.
\<close>

lemma shutdown_error_keeps_flags:
  "shutdown CHANNEL_ALL True session_busy \<lparr>dll = dll_illhandle, calls = [], logger = []\<rparr> =
     (Inl (USBCanError ERR_ILLHANDLE UcanDeinitCanEx [AHandle 0, AInt CHANNEL_CH0]),
      session_busy,
      \<lparr>dll = dll_illhandle,
       calls = [(UcanDeinitCanEx, [AHandle 0, AInt CHANNEL_CH0])],
       logger = []\<rparr>)"
  by (simp add: shutdown_def session_busy_def session_hw_def session_fresh_def dll_illhandle_def
        native_call_def Let_def check_result_def check_defs return_code_defs rc_value_def)

lemma init_hardware_stale:
  "init_hardware None ANY_MODULE session_fresh
       \<lparr>dll = dll_store_then_fail, calls = [install_call], logger = []\<rparr> =
     (Inl (USBCanError 3 UcanInitHardwareEx
             [AByrefHandle, AInt ANY_MODULE, ACallbackRef, ANone]),
      session_stale,
      \<lparr>dll = dll_store_then_fail,
       calls = [install_call,
                (UcanInitHardwareEx, [AByrefHandle, AInt ANY_MODULE, ACallbackRef, ANone])],
       logger = []\<rparr>)"
  by (simp add: init_hardware_def session_stale_def session_fresh_def dll_store_then_fail_def
        native_call_def Let_def check_result_def check_defs return_code_defs rc_value_def)

lemma construct_fresh:
  "USBCanServer_init USBCanServer_class_body world0
     = (Inr session_fresh, USBCanServer_class_body, world0\<lparr>calls := [install_call]\<rparr>)"
  by (simp add: USBCanServer_init_def getattr_connect_control_ref_def USBCanServer_class_body_def
        world0_def dll_ok_def native_call_def Let_def check_result_ok install_call_def
        session_fresh_def)

text \<open>
  C5, as stated, fails in its handle part. A session whose \<open>init_hardware\<close> raised after
  the library had stored handle 9 is reachable; its hardware flag is false, so \<open>shutdown\<close>
  with \<open>CHANNEL_ALL\<close> and \<open>shutdown_hardware = True\<close> returns without touching the handle,
  which is 9 and not the sentinel \<open>0xFF\<close> after the call.
\<close>

theorem shutdown_stale_handle_counterexample:
  "reachable session_stale
   \<and> shutdown CHANNEL_ALL True session_stale world0 = (Inr (), session_stale, world0)
   \<and> \<not> hw_is_initialized session_stale
   \<and> handle session_stale = 9
   \<and> handle session_stale \<noteq> INVALID_HANDLE"
proof -
  have r0: "reachable session_fresh"
    using construct_fresh by (rule reachable.constructed)
  have "invoke (Init_hardware None ANY_MODULE) session_fresh
          \<lparr>dll = dll_store_then_fail, calls = [install_call], logger = []\<rparr> =
        (Inl (Native (USBCanError 3 UcanInitHardwareEx
                        [AByrefHandle, AInt ANY_MODULE, ACallbackRef, ANone])),
         session_stale,
         \<lparr>dll = dll_store_then_fail,
          calls = [install_call,
                   (UcanInitHardwareEx, [AByrefHandle, AInt ANY_MODULE, ACallbackRef, ANone])],
          logger = []\<rparr>)"
    by (simp add: init_hardware_stale)
  with r0 have r1: "reachable session_stale" by (rule reachable.used)
  have run: "shutdown CHANNEL_ALL True session_stale world0 = (Inr (), session_stale, world0)"
    by (simp add: shutdown_def session_stale_def session_fresh_def)
  have h: "\<not> hw_is_initialized session_stale \<and> handle session_stale = 9
           \<and> handle session_stale \<noteq> INVALID_HANDLE"
    by (simp add: session_stale_def session_fresh_def INVALID_HANDLE_def)
  from r1 run h show ?thesis by blast
qed

text \<open>
  C5, amended. \<open>shutdown\<close> with \<open>CHANNEL_ALL\<close> and \<open>shutdown_hardware = True\<close> is
  idempotent. After a first call that returns, every channel flag and the hardware flag
  are false; the handle is the sentinel \<open>0xFF\<close> if the hardware was initialised when the
  call began, and is otherwise left as it was; and a second call, whatever the library
  would answer, returns normally with the session and the world unchanged, so it issues no
  native call.
\<close>

theorem shutdown_idempotent:
  assumes first: "shutdown CHANNEL_ALL True self w = (Inr (), self1, w1)"
  shows "ch_is_initialized self1 = map (\<lambda>(c, flag). (c, False)) (ch_is_initialized self)
       \<and> (\<forall>c. \<not> dict_get (ch_is_initialized self1) c False)
       \<and> \<not> hw_is_initialized self1
       \<and> handle self1 = (if hw_is_initialized self then INVALID_HANDLE else handle self)
       \<and> (\<forall>w2. shutdown CHANNEL_ALL True self1 w2 = (Inr (), self1, w2))"
proof -
  obtain r chs wa where loop:
    "shutdown_channels CHANNEL_ALL True (handle self) (ch_is_initialized self) w = (r, chs, wa)"
    by (metis prod_cases3)
  from first loop obtain u where r: "r = Inr u"
    by (cases r) (auto simp: shutdown_def)
  have chs: "chs = map (\<lambda>(c, flag). (c, False)) (ch_is_initialized self)"
    using loop r shutdown_channels_all by simp
  have s1: "ch_is_initialized self1 = chs \<and> \<not> hw_is_initialized self1
            \<and> handle self1 = (if hw_is_initialized self then INVALID_HANDLE else handle self)"
    using first loop r
    by (auto simp: shutdown_def Let_def split: if_splits prod.splits sum.splits)
  have af: "list_all (\<lambda>cf. \<not> snd cf) (ch_is_initialized self1)"
    using s1 chs all_false_map by simp
  have again: "shutdown CHANNEL_ALL True self1 w2 = (Inr (), self1, w2)" for w2
  proof -
    have "shutdown_channels CHANNEL_ALL True (handle self1) (ch_is_initialized self1) w2
            = (Inr (), ch_is_initialized self1, w2)"
      by (rule shutdown_channels_idle [OF af])
    then show ?thesis using s1 by (simp add: shutdown_def)
  qed
  show ?thesis
    using s1 chs again dict_get_all_false [OF af] by simp
qed

theorem shutdown_idempotent_witness:
  "hw_is_initialized session_busy
   \<and> (\<exists>w1. shutdown CHANNEL_ALL True session_busy world0 = (Inr (), session_fresh, w1)
          \<and> length (calls w1) = 3)
   \<and> ch_is_initialized session_fresh = [(CHANNEL_CH0, False), (CHANNEL_CH1, False)]
   \<and> \<not> hw_is_initialized session_fresh
   \<and> handle session_fresh = INVALID_HANDLE
   \<and> shutdown CHANNEL_ALL True session_fresh world0 = (Inr (), session_fresh, world0)"
proof -
  have hw: "hw_is_initialized session_busy"
    by (simp add: session_busy_def session_hw_def session_fresh_def)
  have "\<forall>w2. shutdown CHANNEL_ALL True session_fresh w2 = (Inr (), session_fresh, w2)"
    using shutdown_idempotent [OF shutdown_busy_run] by blast
  then have again: "shutdown CHANNEL_ALL True session_fresh world0 = (Inr (), session_fresh, world0)"
    by blast
  have run: "\<exists>w1. shutdown CHANNEL_ALL True session_busy world0 = (Inr (), session_fresh, w1)
          \<and> length (calls w1) = 3"
    using shutdown_busy_run by simp
  show ?thesis
    using hw run again by (simp add: session_fresh_def)
qed

lemma init_hardware_keeps:
  "init_hardware serial dn self w = (r, self1, w1)
   \<Longrightarrow> is_initialized_attr self1 = is_initialized_attr self"
  by (auto simp: init_hardware_def Let_def split: if_splits prod.splits sum.splits option.splits)

lemma init_can_keeps:
  "init_can c b1 b2 b3 b4 b5 b6 b7 b8 self w = (r, self1, w1)
   \<Longrightarrow> is_initialized_attr self1 = is_initialized_attr self"
  by (auto simp: init_can_def Let_def split: if_splits prod.splits sum.splits)

lemma shutdown_keeps:
  "shutdown c sh self w = (r, self1, w1)
   \<Longrightarrow> is_initialized_attr self1 = is_initialized_attr self"
  by (auto simp: shutdown_def Let_def split: if_splits prod.splits sum.splits)

lemma pass_through_keeps:
  "pass_through f a self w = (r, self1, w1) \<Longrightarrow> self1 = self"
  by (auto simp: pass_through_def split: prod.splits sum.splits)

lemma callback_id: "callback e c self = self"
  unfolding callback_def hook_pass_def by simp

lemma connect_control_id: "connect_control e p self = self"
  unfolding connect_control_def hook_pass_def by simp

lemma from_native_session:
  "from_native x = (r, self1, w1) \<Longrightarrow> \<exists>r0. x = (r0, self1, w1)"
  by (cases x rule: from_native.cases) auto

lemma invoke_keeps_is_initialized:
  assumes "invoke m self w = (r, self1, w1)"
  shows "is_initialized_attr self1 = is_initialized_attr self"
proof (cases m)
  case (Init_hardware serial dn)
  with assms obtain r0 where "init_hardware serial dn self w = (r0, self1, w1)"
    using from_native_session by fastforce
  then show ?thesis by (rule init_hardware_keeps)
next
  case (Init_can c b1 b2 b3 b4 b5 b6 b7 b8)
  with assms obtain r0 where "init_can c b1 b2 b3 b4 b5 b6 b7 b8 self w = (r0, self1, w1)"
    using from_native_session by fastforce
  then show ?thesis by (rule init_can_keeps)
next
  case (Shutdown c sh)
  with assms obtain r0 where "shutdown c sh self w = (r0, self1, w1)"
    using from_native_session by fastforce
  then show ?thesis by (rule shutdown_keeps)
next
  case (Pass_through f a)
  with assms obtain r0 where "pass_through f a self w = (r0, self1, w1)"
    using from_native_session by fastforce
  then have "self1 = self" by (rule pass_through_keeps)
  then show ?thesis by simp
next
  case (Read_cyclic_can_msg c n)
  with assms show ?thesis by (auto simp: read_cyclic_can_msg_def split: if_splits)
next
  case (Callback e c)
  with assms show ?thesis by (simp add: callback_id)
next
  case (Connect_control e p)
  with assms show ?thesis by (simp add: connect_control_id)
qed

lemma constructed_not_initialized:
  "USBCanServer_init cls w = (Inr self, cls1, w1) \<Longrightarrow> \<not> is_initialized_attr self"
  by (auto simp: USBCanServer_init_def Let_def split: if_splits prod.splits sum.splits)

lemma init_hardware_sets_hw:
  "init_hardware serial dn self w = (Inr (), self1, w1) \<Longrightarrow> hw_is_initialized self1"
  by (auto simp: init_hardware_def Let_def split: if_splits prod.splits sum.splits option.splits)

lemma init_hardware_fresh:
  "init_hardware None ANY_MODULE session_fresh (world0\<lparr>calls := [install_call]\<rparr>)
     = (Inr (), session_hw,
        world0\<lparr>calls := [install_call,
                         (UcanInitHardwareEx,
                          [AByrefHandle, AInt ANY_MODULE, ACallbackRef, ANone])]\<rparr>)"
  by (simp add: init_hardware_def session_hw_def session_fresh_def world0_def dll_ok_def
        native_call_def Let_def check_result_ok)

text \<open>
  C9. In every reachable state of a session the property \<open>is_initialized\<close> reads false,
  also right after \<open>init_hardware\<close> has returned and set the hardware flag: no method
  assigns the attribute behind the property after the constructor has set it to false.
\<close>

theorem is_initialized_never_true:
  assumes "reachable self"
  shows "\<not> is_initialized self \<and>
         (\<forall>serial device_number w self1 w1.
            init_hardware serial device_number self w = (Inr (), self1, w1) \<longrightarrow>
              hw_is_initialized self1 \<and> \<not> is_initialized self1)"
proof -
  have a: "\<not> is_initialized_attr self"
    using assms
    by (induction rule: reachable.induct)
       (auto dest: constructed_not_initialized invoke_keeps_is_initialized)
  have b: "hw_is_initialized self1 \<and> \<not> is_initialized self1"
    if "init_hardware serial device_number self w = (Inr (), self1, w1)"
    for serial device_number w self1 w1
  proof -
    have "invoke (Init_hardware serial device_number) self w = (Inr (), self1, w1)"
      using that by simp
    then have "is_initialized_attr self1 = is_initialized_attr self"
      by (rule invoke_keeps_is_initialized)
    then show ?thesis using a that init_hardware_sets_hw by (simp add: is_initialized_def)
  qed
  show ?thesis using a b by (simp add: is_initialized_def)
qed

theorem is_initialized_never_true_witness:
  "reachable session_fresh \<and> \<not> is_initialized session_fresh
   \<and> reachable session_hw \<and> hw_is_initialized session_hw \<and> \<not> is_initialized session_hw"
proof -
  have r0: "reachable session_fresh"
    using construct_fresh by (rule reachable.constructed)
  have "invoke (Init_hardware None ANY_MODULE) session_fresh (world0\<lparr>calls := [install_call]\<rparr>)
          = (Inr (), session_hw,
             world0\<lparr>calls := [install_call,
                              (UcanInitHardwareEx,
                               [AByrefHandle, AInt ANY_MODULE, ACallbackRef, ANone])]\<rparr>)"
    using init_hardware_fresh by simp
  with r0 have r1: "reachable session_hw" by (rule reachable.used)
  have "\<not> is_initialized session_fresh"
    using is_initialized_never_true [OF r0] by blast
  moreover have "hw_is_initialized session_hw \<and> \<not> is_initialized session_hw"
    using is_initialized_never_true [OF r0] init_hardware_fresh by blast
  ultimately show ?thesis using r0 r1 by blast
qed

end
